theory Spec2Isabelle
  imports Main "HOL-Library.Word" "HOL-Library.AList"
begin

unbundle bit_operations_syntax

section \<open>Python values\<close>

text \<open>
  The three scripts under \<^verbatim>\<open>examples/python\<close> work on Python \<^verbatim>\<open>bytes\<close>, \<^verbatim>\<open>str\<close>
  and \<^verbatim>\<open>dict\<close> values. A \<^verbatim>\<open>bytes\<close> value is a list of 8-bit words. A \<^verbatim>\<open>str\<close> is a
  list of Unicode code points (Python's \<^verbatim>\<open>len\<close> and slicing count code points), so a
  character is a natural number below \<open>0x110000\<close>. A \<^verbatim>\<open>dict\<close> is an association list
  with distinct keys in insertion order: \<^verbatim>\<open>d[k] = v\<close> is \<^const>\<open>AList.update\<close> (replace
  in place, or append), \<^verbatim>\<open>del d[k]\<close> is \<^const>\<open>AList.delete\<close>.

  Standard output is the list of the printed lines. Files are their contents. The limits
  of the interpreter itself (memory, recursion depth, the digit limit of \<^verbatim>\<open>int\<close>
  conversions) and the encoding of standard output are outside the model.
\<close>

type_synonym byte = "8 word"
type_synonym pystr = "nat list"

definition ustr :: "string \<Rightarrow> pystr" where
  "ustr s = map of_char s"

datatype error =
    StructError
  | UnicodeDecodeError
  | UnicodeEncodeError
  | JSONDecodeError
  | TypeError
  | AttributeError
  | KeyError
  | NotModelled

text \<open>
  \<^const>\<open>NotModelled\<close> is not a Python exception. It marks the inputs on which the
  scripts depend on library behaviour that is left out here: JSON numbers with a fraction
  or an exponent and the constants \<^verbatim>\<open>NaN\<close> and \<^verbatim>\<open>Infinity\<close> (Python floats), JSON
  text in UTF-16 or UTF-32, and the \<^verbatim>\<open>repr\<close> of a list or a dict that a script would
  print for a reserved metadata value that is not a string.
\<close>

datatype json =
    JNull
  | JBool bool
  | JInt int
  | JStr pystr
  | JArr "json list"
  | JObj "(pystr \<times> json) list"

subsection \<open>\<^verbatim>\<open>str\<close> and \<^verbatim>\<open>dict\<close> operations\<close>

definition startswith :: "'a list \<Rightarrow> 'a list \<Rightarrow> bool" where
  "startswith s p = (take (length p) s = p)"

text \<open>\<^verbatim>\<open>sub in s\<close> on two strings: \<^verbatim>\<open>sub\<close> occurs in \<^verbatim>\<open>s\<close>.\<close>

definition str_contains :: "pystr \<Rightarrow> pystr \<Rightarrow> bool" where
  "str_contains s sub = list_ex (\<lambda>i. startswith (drop i s) sub) [0..<Suc (length s)]"

definition dict_contains :: "('k \<times> 'v) list \<Rightarrow> 'k \<Rightarrow> bool" where
  "dict_contains d k = (map_of d k \<noteq> None)"

text \<open>\<^verbatim>\<open>d.update(e)\<close>: the entries of \<^verbatim>\<open>e\<close> are stored one by one, in order.\<close>

definition dict_update :: "('k \<times> 'v) list \<Rightarrow> ('k \<times> 'v) list \<Rightarrow> ('k \<times> 'v) list" where
  "dict_update d e = fold (\<lambda>(k, v). AList.update k v) e d"

text \<open>\<^verbatim>\<open>dict(pairs)\<close>, as the JSON decoder builds an object from its members.\<close>

definition dict_of_pairs :: "('k \<times> 'v) list \<Rightarrow> ('k \<times> 'v) list" where
  "dict_of_pairs ps = dict_update [] ps"

subsection \<open>\<^verbatim>\<open>struct.pack('Q', n)\<close> and \<^verbatim>\<open>struct.unpack('Q', b)\<close>\<close>

text \<open>
  Format \<^verbatim>\<open>Q\<close> is an unsigned 64-bit integer in the byte order of the machine, taken
  here as little-endian (x86-64, AArch64). Packing a number outside the 64-bit range and
  unpacking a buffer that is not 8 bytes long raise \<^verbatim>\<open>struct.error\<close>.
\<close>

definition le_bytes :: "64 word \<Rightarrow> byte list" where
  "le_bytes w = map (\<lambda>i. ucast (drop_bit (8 * i) w)) [0..<8]"

definition le_word :: "byte list \<Rightarrow> 64 word" where
  "le_word bs = foldr (\<lambda>b acc. ucast b OR push_bit 8 acc) bs 0"

definition pack_Q :: "nat \<Rightarrow> error + byte list" where
  "pack_Q n = (if n < 2 ^ 64 then Inr (le_bytes (word_of_nat n)) else Inl StructError)"

definition unpack_Q :: "byte list \<Rightarrow> error + nat" where
  "unpack_Q b = (if length b = 8 then Inr (unat (le_word b)) else Inl StructError)"

subsection \<open>UTF-8\<close>

text \<open>
  \<^verbatim>\<open>s.encode('utf-8')\<close>: strict, a surrogate code point raises
  \<^verbatim>\<open>UnicodeEncodeError\<close>.
\<close>

definition is_surrogate :: "nat \<Rightarrow> bool" where
  "is_surrogate c = (0xD800 \<le> c \<and> c \<le> 0xDFFF)"

definition utf8_encode_char :: "nat \<Rightarrow> error + byte list" where
  "utf8_encode_char c =
     (if c < 0x80 then Inr [of_nat c]
      else if c < 0x800 then Inr [of_nat (0xC0 + c div 64), of_nat (0x80 + c mod 64)]
      else if is_surrogate c then Inl UnicodeEncodeError
      else if c < 0x10000 then
        Inr [of_nat (0xE0 + c div 4096), of_nat (0x80 + c div 64 mod 64), of_nat (0x80 + c mod 64)]
      else if c < 0x110000 then
        Inr [of_nat (0xF0 + c div 262144), of_nat (0x80 + c div 4096 mod 64),
             of_nat (0x80 + c div 64 mod 64), of_nat (0x80 + c mod 64)]
      else Inl UnicodeEncodeError)"

fun utf8_encode :: "pystr \<Rightarrow> error + byte list" where
  "utf8_encode [] = Inr []"
| "utf8_encode (c # cs) =
     (case utf8_encode_char c of
        Inl e \<Rightarrow> Inl e
      | Inr b \<Rightarrow> (case utf8_encode cs of Inl e \<Rightarrow> Inl e | Inr bs \<Rightarrow> Inr (b @ bs)))"

text \<open>
  \<^verbatim>\<open>b.decode('utf-8', 'surrogatepass')\<close>, the decoding \<^verbatim>\<open>json.loads\<close> applies to
  \<^verbatim>\<open>bytes\<close>: shortest-form UTF-8 up to \<open>U+10FFFF\<close>, and the three-byte forms of the
  surrogates are let through.
\<close>

definition is_cont :: "byte \<Rightarrow> bool" where
  "is_cont b = (0x80 \<le> unat b \<and> unat b \<le> 0xBF)"

definition cont_bits :: "byte \<Rightarrow> nat" where
  "cont_bits b = unat b mod 64"

fun utf8_decode :: "byte list \<Rightarrow> error + pystr" where
  "utf8_decode [] = Inr []"
| "utf8_decode (b0 # bs) =
     (let n0 = unat b0 in
      if n0 < 0x80 then
        (case utf8_decode bs of Inl e \<Rightarrow> Inl e | Inr cs \<Rightarrow> Inr (n0 # cs))
      else if 0xC2 \<le> n0 \<and> n0 \<le> 0xDF then
        (case bs of
           b1 # r \<Rightarrow>
             if is_cont b1 then
               (case utf8_decode r of
                  Inl e \<Rightarrow> Inl e
                | Inr cs \<Rightarrow> Inr (((n0 - 0xC0) * 64 + cont_bits b1) # cs))
             else Inl UnicodeDecodeError
         | _ \<Rightarrow> Inl UnicodeDecodeError)
      else if 0xE0 \<le> n0 \<and> n0 \<le> 0xEF then
        (case bs of
           b1 # b2 # r \<Rightarrow>
             if is_cont b1 \<and> is_cont b2 \<and> (n0 = 0xE0 \<longrightarrow> 0xA0 \<le> unat b1) then
               (case utf8_decode r of
                  Inl e \<Rightarrow> Inl e
                | Inr cs \<Rightarrow>
                    Inr (((n0 - 0xE0) * 4096 + cont_bits b1 * 64 + cont_bits b2) # cs))
             else Inl UnicodeDecodeError
         | _ \<Rightarrow> Inl UnicodeDecodeError)
      else if 0xF0 \<le> n0 \<and> n0 \<le> 0xF4 then
        (case bs of
           b1 # b2 # b3 # r \<Rightarrow>
             if is_cont b1 \<and> is_cont b2 \<and> is_cont b3
                \<and> (n0 = 0xF0 \<longrightarrow> 0x90 \<le> unat b1) \<and> (n0 = 0xF4 \<longrightarrow> unat b1 \<le> 0x8F) then
               (case utf8_decode r of
                  Inl e \<Rightarrow> Inl e
                | Inr cs \<Rightarrow>
                    Inr (((n0 - 0xF0) * 262144 + cont_bits b1 * 4096
                          + cont_bits b2 * 64 + cont_bits b3) # cs))
             else Inl UnicodeDecodeError
         | _ \<Rightarrow> Inl UnicodeDecodeError)
      else Inl UnicodeDecodeError)"


subsection \<open>\<^verbatim>\<open>json.dumps\<close>\<close>

text \<open>
  \<^verbatim>\<open>json.dumps(obj)\<close> with its defaults: \<^verbatim>\<open>ensure_ascii=True\<close> and the separators
  \<^verbatim>\<open>', '\<close> and \<^verbatim>\<open>': '\<close>. Characters are written as their code points:
  \<open>0x22\<close> is the double quote, \<open>0x5C\<close> the backslash, \<open>0x2F\<close> the slash,
  \<open>0x75\<close> the letter u, \<open>0x2C\<close> the comma, \<open>0x3A\<close> the colon, \<open>0x5B\<close> and
  \<open>0x5D\<close> the square brackets, \<open>0x7B\<close> and \<open>0x7D\<close> the braces, \<open>0x2D\<close> the
  minus sign, \<open>0x30\<close> the digit 0.
\<close>

definition hex_digit :: "nat \<Rightarrow> nat" where
  "hex_digit d = (if d < 10 then 0x30 + d else 0x57 + d)"

text \<open>\<^verbatim>\<open>'{0:04x}'.format(n)\<close> for \<open>n < 0x10000\<close>.\<close>

definition hex4 :: "nat \<Rightarrow> pystr" where
  "hex4 n = map hex_digit [n div 4096 mod 16, n div 256 mod 16, n div 16 mod 16, n mod 16]"

text \<open>
  The replacement function of \<^verbatim>\<open>py_encode_basestring_ascii\<close>: the short escapes, the
  printable ASCII characters as they are, \<^verbatim>\<open>\uXXXX\<close> for the rest of the basic plane
  and a surrogate pair above it.
\<close>

definition escape_char :: "nat \<Rightarrow> pystr" where
  "escape_char c =
     (if c = 0x5C then [0x5C, 0x5C]
      else if c = 0x22 then [0x5C, 0x22]
      else if c = 0x08 then [0x5C, 0x62]
      else if c = 0x0C then [0x5C, 0x66]
      else if c = 0x0A then [0x5C, 0x6E]
      else if c = 0x0D then [0x5C, 0x72]
      else if c = 0x09 then [0x5C, 0x74]
      else if 0x20 \<le> c \<and> c \<le> 0x7E then [c]
      else if c < 0x10000 then [0x5C, 0x75] @ hex4 c
      else (let n = c - 0x10000;
                s1 = 0xD800 + n div 1024 mod 1024;
                s2 = 0xDC00 + n mod 1024
            in [0x5C, 0x75] @ hex4 s1 @ [0x5C, 0x75] @ hex4 s2))"

definition encode_basestring_ascii :: "pystr \<Rightarrow> pystr" where
  "encode_basestring_ascii s = [0x22] @ concat (map escape_char s) @ [0x22]"

text \<open>\<^verbatim>\<open>str(n)\<close> on an integer: its decimal digits.\<close>

function digits :: "nat \<Rightarrow> pystr" where
  "digits n = (if n < 10 then [0x30 + n] else digits (n div 10) @ [0x30 + n mod 10])"
  by pat_completeness auto
termination
  by (relation "measure id") auto

declare digits.simps [simp del]

definition show_int :: "int \<Rightarrow> pystr" where
  "show_int i = (if i < 0 then 0x2D # digits (nat (- i)) else digits (nat i))"

fun dumps :: "json \<Rightarrow> pystr"
  and dumps_list :: "json list \<Rightarrow> pystr"
  and dumps_dict :: "(pystr \<times> json) list \<Rightarrow> pystr" where
  "dumps JNull = ustr ''null''"
| "dumps (JBool b) = (if b then ustr ''true'' else ustr ''false'')"
| "dumps (JInt i) = show_int i"
| "dumps (JStr s) = encode_basestring_ascii s"
| "dumps (JArr xs) = [0x5B] @ dumps_list xs @ [0x5D]"
| "dumps (JObj kvs) = [0x7B] @ dumps_dict kvs @ [0x7D]"
| "dumps_list [] = []"
| "dumps_list (x # xs) = dumps x @ (if xs = [] then [] else [0x2C, 0x20] @ dumps_list xs)"
| "dumps_dict [] = []"
| "dumps_dict ((k, v) # kvs) =
     encode_basestring_ascii k @ [0x3A, 0x20] @ dumps v
     @ (if kvs = [] then [] else [0x2C, 0x20] @ dumps_dict kvs)"

subsection \<open>\<^verbatim>\<open>json.loads\<close>\<close>

text \<open>
  The decoder of the \<^verbatim>\<open>json\<close> module, in strict mode and without hooks: white space
  is space, tab, line feed and carriage return; a string ends at the first unescaped
  double quote and holds no raw control character; an object keeps the last value of a
  repeated key. Every way the text can fail to parse raises \<^verbatim>\<open>JSONDecodeError\<close>.
\<close>

definition is_ws :: "nat \<Rightarrow> bool" where
  "is_ws c = (c = 0x20 \<or> c = 0x09 \<or> c = 0x0A \<or> c = 0x0D)"

definition skip_ws :: "pystr \<Rightarrow> pystr" where
  "skip_ws s = dropWhile is_ws s"

definition hex_val :: "nat \<Rightarrow> nat option" where
  "hex_val c =
     (if 0x30 \<le> c \<and> c \<le> 0x39 then Some (c - 0x30)
      else if 0x61 \<le> c \<and> c \<le> 0x66 then Some (c - 0x57)
      else if 0x41 \<le> c \<and> c \<le> 0x46 then Some (c - 0x37)
      else None)"

fun decode_uXXXX :: "pystr \<Rightarrow> nat option" where
  "decode_uXXXX (a # b # c # d # _) =
     (case (hex_val a, hex_val b, hex_val c, hex_val d) of
        (Some x, Some y, Some z, Some w) \<Rightarrow> Some (((x * 16 + y) * 16 + z) * 16 + w)
      | _ \<Rightarrow> None)"
| "decode_uXXXX _ = None"

definition backslash :: "nat \<Rightarrow> nat option" where
  "backslash esc =
     (if esc = 0x22 then Some 0x22
      else if esc = 0x5C then Some 0x5C
      else if esc = 0x2F then Some 0x2F
      else if esc = 0x62 then Some 0x08
      else if esc = 0x66 then Some 0x0C
      else if esc = 0x6E then Some 0x0A
      else if esc = 0x72 then Some 0x0D
      else if esc = 0x74 then Some 0x09
      else None)"

definition cons_chr :: "nat \<Rightarrow> (pystr \<times> pystr) option \<Rightarrow> (pystr \<times> pystr) option" where
  "cons_chr c r = (case r of None \<Rightarrow> None | Some (s, rest) \<Rightarrow> Some (c # s, rest))"

text \<open>
  One escape sequence, read after its backslash. A \<^verbatim>\<open>\uXXXX\<close> escape of a high
  surrogate directly followed by the escape of a low surrogate is one character.
\<close>

definition scan_escape :: "pystr \<Rightarrow> (nat \<times> pystr) option" where
  "scan_escape s =
     (case s of
        [] \<Rightarrow> None
      | esc # s1 \<Rightarrow>
          if esc = 0x75 then
            (case decode_uXXXX s1 of
               None \<Rightarrow> None
             | Some uni \<Rightarrow>
                 if 0xD800 \<le> uni \<and> uni \<le> 0xDBFF \<and> take 2 (drop 4 s1) = [0x5C, 0x75] then
                   (case decode_uXXXX (drop 6 s1) of
                      None \<Rightarrow> None
                    | Some uni2 \<Rightarrow>
                        if 0xDC00 \<le> uni2 \<and> uni2 \<le> 0xDFFF then
                          Some (0x10000 + ((uni - 0xD800) * 1024 + (uni2 - 0xDC00)), drop 10 s1)
                        else Some (uni, drop 4 s1))
                 else Some (uni, drop 4 s1))
          else
            (case backslash esc of
               None \<Rightarrow> None
             | Some ch \<Rightarrow> Some (ch, s1)))"

lemma scan_escape_shorter: "scan_escape s = Some (ch, r) \<Longrightarrow> length r < length s"
  by (auto simp: scan_escape_def split: list.splits if_splits option.splits)

function scanstring :: "pystr \<Rightarrow> (pystr \<times> pystr) option" where
  "scanstring [] = None"
| "scanstring (c # s) =
     (if c = 0x22 then Some ([], s)
      else if c = 0x5C then
        (case scan_escape s of
           None \<Rightarrow> None
         | Some (ch, r) \<Rightarrow> cons_chr ch (scanstring r))
      else if c < 0x20 then None
      else cons_chr c (scanstring s))"
  by pat_completeness auto
termination
  by (relation "measure length") (auto dest: scan_escape_shorter)

lemma scanstring_shorter: "scanstring s = Some (k, r) \<Longrightarrow> length r < length s"
proof (induction s arbitrary: k r rule: scanstring.induct)
  case 1
  then show ?case by simp
next
  case (2 c s)
  show ?case
  proof (cases "c = 0x22")
    case True
    with "2.prems" show ?thesis by simp
  next
    case False
    show ?thesis
    proof (cases "c = 0x5C")
      case True
      with False "2.prems" obtain ch r' k' where
        e: "scan_escape s = Some (ch, r')" and s: "scanstring r' = Some (k', r)"
        by (auto simp: cons_chr_def split: option.splits)
      from "2.IH"(1) [OF False True e refl s] scan_escape_shorter [OF e]
      show ?thesis by simp
    next
      case c: False
      with False "2.prems" obtain k' where lt: "\<not> c < 0x20" and s: "scanstring s = Some (k', r)"
        by (auto simp: cons_chr_def split: option.splits if_splits)
      from "2.IH"(2) [OF False c lt s] show ?thesis by simp
    qed
  qed
qed


text \<open>
  Numbers follow \<^verbatim>\<open>NUMBER_RE\<close>: an integer part, an optional fraction and an optional
  exponent. With a fraction or an exponent the value is a Python float.
\<close>

definition is_digit :: "nat \<Rightarrow> bool" where
  "is_digit c = (0x30 \<le> c \<and> c \<le> 0x39)"

definition int_of_digits :: "pystr \<Rightarrow> int" where
  "int_of_digits ds = foldl (\<lambda>acc d. 10 * acc + int (d - 0x30)) 0 ds"

text \<open>The integer part: an optional minus sign, then \<^verbatim>\<open>0\<close> or a digit from 1 to 9 and any digits.\<close>

definition match_integer :: "pystr \<Rightarrow> (pystr \<times> pystr) option" where
  "match_integer s =
     (let (sign, r) = (case s of c # r' \<Rightarrow> if c = 0x2D then ([c], r') else ([], s) | [] \<Rightarrow> ([], s))
      in case r of
           [] \<Rightarrow> None
         | d # r' \<Rightarrow>
             if d = 0x30 then Some (sign @ [d], r')
             else if is_digit d then Some (sign @ d # takeWhile is_digit r', dropWhile is_digit r')
             else None)"

definition has_frac :: "pystr \<Rightarrow> bool" where
  "has_frac r = (case r of c # d # _ \<Rightarrow> c = 0x2E \<and> is_digit d | _ \<Rightarrow> False)"

definition has_exp :: "pystr \<Rightarrow> bool" where
  "has_exp r =
     (case r of
        c # r' \<Rightarrow>
          (c = 0x65 \<or> c = 0x45) \<and>
          (case r' of
             d # r'' \<Rightarrow>
               if d = 0x2D \<or> d = 0x2B then (case r'' of d' # _ \<Rightarrow> is_digit d' | [] \<Rightarrow> False)
               else is_digit d
           | [] \<Rightarrow> False)
      | [] \<Rightarrow> False)"

definition parse_int :: "pystr \<Rightarrow> int" where
  "parse_int s = (case s of c # r \<Rightarrow> if c = 0x2D then - int_of_digits r else int_of_digits s | [] \<Rightarrow> 0)"

definition scan_number :: "pystr \<Rightarrow> error + (json \<times> pystr)" where
  "scan_number s =
     (case match_integer s of
        Some (integer, r) \<Rightarrow>
          if has_frac r \<or> has_exp r then Inl NotModelled else Inr (JInt (parse_int integer), r)
      | None \<Rightarrow>
          if startswith s (ustr ''NaN'') \<or> startswith s (ustr ''Infinity'')
             \<or> startswith s (ustr ''-Infinity'')
          then Inl NotModelled else Inl JSONDecodeError)"

lemma length_skip_ws: "length (skip_ws s) \<le> length s"
  by (simp add: skip_ws_def length_dropWhile_le)

lemma skip_ws_Cons_length: "skip_ws s = c # r \<Longrightarrow> length r < length s"
  using length_skip_ws [of s] by simp

text \<open>
  \<^verbatim>\<open>scan_once\<close> reads one value; \<open>parse_array\<close> reads the elements of an array from
  its first value on, and \<open>parse_object\<close> the members of an object from after the opening
  quote of its first key. The two tests \<open>length r \<le> length s\<close> on what \<open>scan_once\<close>
  leaves make the recursion well-founded; they always hold (\<open>scan_once_shorter\<close> below).
\<close>

function scan_once :: "pystr \<Rightarrow> error + (json \<times> pystr)"
  and parse_array :: "pystr \<Rightarrow> error + (json list \<times> pystr)"
  and parse_object :: "pystr \<Rightarrow> error + ((pystr \<times> json) list \<times> pystr)" where
  "scan_once s =
     (case s of
        [] \<Rightarrow> Inl JSONDecodeError
      | c # r \<Rightarrow>
          if c = 0x22 then
            (case scanstring r of
               None \<Rightarrow> Inl JSONDecodeError
             | Some (str, r') \<Rightarrow> Inr (JStr str, r'))
          else if c = 0x7B then
            (case skip_ws r of
               [] \<Rightarrow> Inl JSONDecodeError
             | c' # r' \<Rightarrow>
                 if c' = 0x7D then Inr (JObj [], r')
                 else if c' = 0x22 then
                   (case parse_object r' of
                      Inl e \<Rightarrow> Inl e
                    | Inr (pairs, r'') \<Rightarrow> Inr (JObj (dict_of_pairs pairs), r''))
                 else Inl JSONDecodeError)
          else if c = 0x5B then
            (case skip_ws r of
               [] \<Rightarrow> Inl JSONDecodeError
             | c' # r' \<Rightarrow>
                 if c' = 0x5D then Inr (JArr [], r')
                 else
                   (case parse_array (c' # r') of
                      Inl e \<Rightarrow> Inl e
                    | Inr (vals, r'') \<Rightarrow> Inr (JArr vals, r'')))
          else if startswith s (ustr ''null'') then Inr (JNull, drop 4 s)
          else if startswith s (ustr ''true'') then Inr (JBool True, drop 4 s)
          else if startswith s (ustr ''false'') then Inr (JBool False, drop 5 s)
          else scan_number s)"
| "parse_array s =
     (case scan_once s of
        Inl e \<Rightarrow> Inl e
      | Inr (v, r) \<Rightarrow>
          if length r \<le> length s then
            (case skip_ws r of
               [] \<Rightarrow> Inl JSONDecodeError
             | c # r' \<Rightarrow>
                 if c = 0x5D then Inr ([v], r')
                 else if c = 0x2C then
                   (case parse_array (skip_ws r') of
                      Inl e \<Rightarrow> Inl e
                    | Inr (vals, r'') \<Rightarrow> Inr (v # vals, r''))
                 else Inl JSONDecodeError)
          else Inl JSONDecodeError)"
| "parse_object s =
     (case scanstring s of
        None \<Rightarrow> Inl JSONDecodeError
      | Some (key, r) \<Rightarrow>
          (case skip_ws r of
             [] \<Rightarrow> Inl JSONDecodeError
           | c # r1 \<Rightarrow>
               if c = 0x3A then
                 (case scan_once (skip_ws r1) of
                    Inl e \<Rightarrow> Inl e
                  | Inr (v, r2) \<Rightarrow>
                      if length r2 \<le> length r1 then
                        (case skip_ws r2 of
                           [] \<Rightarrow> Inl JSONDecodeError
                         | c' # r3 \<Rightarrow>
                             if c' = 0x7D then Inr ([(key, v)], r3)
                             else if c' = 0x2C then
                               (case skip_ws r3 of
                                  [] \<Rightarrow> Inl JSONDecodeError
                                | c'' # r4 \<Rightarrow>
                                    if c'' = 0x22 then
                                      (case parse_object r4 of
                                         Inl e \<Rightarrow> Inl e
                                       | Inr (pairs, r5) \<Rightarrow> Inr ((key, v) # pairs, r5))
                                    else Inl JSONDecodeError)
                             else Inl JSONDecodeError)
                      else Inl JSONDecodeError)
               else Inl JSONDecodeError))"
  by pat_completeness auto

termination
proof (relation "measure (\<lambda>x. case x of Inl s \<Rightarrow> 2 * length s
                   | Inr (Inl s) \<Rightarrow> 2 * length s + 1
                   | Inr (Inr s) \<Rightarrow> 2 * length s + 1)", goal_cases)
  case 1
  show ?case by simp
next
  case (2 s c r c' r')
  from skip_ws_Cons_length [OF 2(4)] 2(1) show ?case by simp
next
  case (3 s c r c' r')
  from skip_ws_Cons_length [OF 3(5)] 3(1) show ?case by simp
next
  case (4 s)
  show ?case by simp
next
  case (5 s b v r c r')
  from skip_ws_Cons_length [OF 5(4)] length_skip_ws [of r'] 5(3) show ?case by simp
next
  case (6 s x2 key r c r1)
  from 6(1,2) have "length r < length s" by (auto dest: scanstring_shorter)
  with skip_ws_Cons_length [OF 6(3)] length_skip_ws [of r1] show ?case by simp
next
  case (7 s x2 key r c r1 b v r2 c' r3 c'' r4)
  from 7(1,2) have "length r < length s" by (auto dest: scanstring_shorter)
  with skip_ws_Cons_length [OF 7(3)] 7(7) skip_ws_Cons_length [OF 7(8)]
    skip_ws_Cons_length [OF 7(11)]
  show ?case by simp
qed



declare scan_once.simps [simp del] parse_array.simps [simp del] parse_object.simps [simp del]

definition loads_str :: "pystr \<Rightarrow> error + json" where
  "loads_str s =
     (case scan_once (skip_ws s) of
        Inl e \<Rightarrow> Inl e
      | Inr (obj, r) \<Rightarrow> if skip_ws r = [] then Inr obj else Inl JSONDecodeError)"

text \<open>
  On \<^verbatim>\<open>bytes\<close>, \<^verbatim>\<open>json.loads\<close> first picks the encoding from the leading bytes
  (\<^verbatim>\<open>detect_encoding\<close>) and decodes with \<^verbatim>\<open>surrogatepass\<close>; \<^verbatim>\<open>utf-8-sig\<close> drops the
  byte order mark.
\<close>

datatype encoding = Utf8 | Utf8_sig | Utf16_or_32

definition detect_encoding :: "byte list \<Rightarrow> encoding" where
  "detect_encoding b =
     (if startswith b [0x00, 0x00, 0xFE, 0xFF] \<or> startswith b [0xFF, 0xFE, 0x00, 0x00]
      then Utf16_or_32
      else if startswith b [0xFE, 0xFF] \<or> startswith b [0xFF, 0xFE] then Utf16_or_32
      else if startswith b [0xEF, 0xBB, 0xBF] then Utf8_sig
      else if 4 \<le> length b then
        (if b ! 0 = 0 then Utf16_or_32 else if b ! 1 = 0 then Utf16_or_32 else Utf8)
      else if length b = 2 then
        (if b ! 0 = 0 then Utf16_or_32 else if b ! 1 = 0 then Utf16_or_32 else Utf8)
      else Utf8)"

definition loads :: "byte list \<Rightarrow> error + json" where
  "loads b =
     (case detect_encoding b of
        Utf16_or_32 \<Rightarrow> Inl NotModelled
      | Utf8_sig \<Rightarrow> (case utf8_decode (drop 3 b) of Inl e \<Rightarrow> Inl e | Inr s \<Rightarrow> loads_str s)
      | Utf8 \<Rightarrow> (case utf8_decode b of Inl e \<Rightarrow> Inl e | Inr s \<Rightarrow> loads_str s))"

subsection \<open>Digest, Base64 and file extension\<close>

text \<open>
  \<^verbatim>\<open>hashlib.sha256\<close> is a parameter of the model: a function \<open>sha256\<close> from the bytes
  fed to it to the 32 bytes of the digest. \<^verbatim>\<open>hexdigest()\<close> writes each byte as two
  lowercase hexadecimal digits.
\<close>

definition hexdigest :: "byte list \<Rightarrow> pystr" where
  "hexdigest d = concat (map (\<lambda>b. [hex_digit (unat b div 16), hex_digit (unat b mod 16)]) d)"

text \<open>\<^verbatim>\<open>base64.b64encode\<close>: the standard alphabet, padded with \<^verbatim>\<open>=\<close>.\<close>

definition b64_char :: "nat \<Rightarrow> byte" where
  "b64_char n =
     of_nat (if n < 26 then 0x41 + n
             else if n < 52 then 0x61 + (n - 26)
             else if n < 62 then 0x30 + (n - 52)
             else if n = 62 then 0x2B
             else 0x2F)"

fun b64encode :: "byte list \<Rightarrow> byte list" where
  "b64encode [] = []"
| "b64encode [a] =
     [b64_char (unat a div 4), b64_char (unat a mod 4 * 16), 0x3D, 0x3D]"
| "b64encode [a, b] =
     [b64_char (unat a div 4), b64_char (unat a mod 4 * 16 + unat b div 16),
      b64_char (unat b mod 16 * 4), 0x3D]"
| "b64encode (a # b # c # bs) =
     [b64_char (unat a div 4), b64_char (unat a mod 4 * 16 + unat b div 16),
      b64_char (unat b mod 16 * 4 + unat c div 64), b64_char (unat c mod 64)]
     @ b64encode bs"

text \<open>
  \<^verbatim>\<open>convert_to_b64(image)\<close>. The image is given by the bytes \<^verbatim>\<open>image.save\<close> writes for
  it in PNG format (the image codec is not part of the scripts). The Base64 text is
  ASCII, so \<^verbatim>\<open>.decode("utf-8")\<close> gives the characters with the same codes.
\<close>

definition convert_to_b64 :: "byte list \<Rightarrow> pystr" where
  "convert_to_b64 png = map unat (b64encode png)"

text \<open>
  \<^verbatim>\<open>os.path.splitext(p)[1]\<close> on POSIX (separator \<^verbatim>\<open>/\<close>, no alternative separator):
  the text from the last dot of the last path component on, if a character other than a
  dot stands before that dot in the component, and the empty string otherwise.
\<close>

definition rfind :: "pystr \<Rightarrow> nat \<Rightarrow> int" where
  "rfind p c =
     (case filter (\<lambda>i. p ! i = c) (rev [0..<length p]) of [] \<Rightarrow> - 1 | i # _ \<Rightarrow> int i)"

definition splitext_ext :: "pystr \<Rightarrow> pystr" where
  "splitext_ext p =
     (let sepIndex = rfind p 0x2F; dotIndex = rfind p 0x2E
      in if sepIndex < dotIndex
            \<and> list_ex (\<lambda>i. p ! i \<noteq> 0x2E) [nat (sepIndex + 1)..<nat dotIndex]
         then drop (nat dotIndex) p else [])"

section \<open>The scripts\<close>

subsection \<open>Steps shared by the scripts\<close>

text \<open>
  Lines 41-46 of \<^verbatim>\<open>example_no_reqs.py\<close> (46-51 of \<^verbatim>\<open>example_hf_safetensors.py\<close>):
  with a non-empty \<^verbatim>\<open>image_path\<close>, the thumbnail is stored in \<^verbatim>\<open>metadata\<close>. The result is
  the printed line and the new \<^verbatim>\<open>metadata\<close>.
\<close>

definition thumbnail_uri :: "pystr \<Rightarrow> byte list \<Rightarrow> pystr" where
  "thumbnail_uri image_path png =
     ustr ''data:image/'' @ splitext_ext image_path @ ustr '';base64,'' @ convert_to_b64 png"

definition load_image ::
  "pystr \<Rightarrow> byte list \<Rightarrow> (pystr \<times> pystr) list \<Rightarrow> pystr list \<times> (pystr \<times> pystr) list" where
  "load_image image_path png metadata =
     (if image_path \<noteq> [] then
        ([ustr ''Loading image...''],
         AList.update (ustr ''modelspec.thumbnail'') (thumbnail_uri image_path png) metadata)
      else ([], metadata))"

text \<open>
  The expression \<^verbatim>\<open>val[:max_len] + "..." if len(val) > max_len else val\<close> and the line
  printed for an entry.
\<close>

definition display_value :: "nat \<Rightarrow> pystr \<Rightarrow> pystr" where
  "display_value max_len val =
     (if max_len < length val then take max_len val @ ustr ''...'' else val)"

definition entry_line :: "pystr \<Rightarrow> pystr \<Rightarrow> pystr" where
  \<open>entry_line key shown = ustr ''    "'' @ key @ ustr ''": "'' @ shown @ ustr ''"''\<close>

text \<open>
  The same expression on a value as \<^verbatim>\<open>json.loads\<close> returns it: \<^verbatim>\<open>len\<close> raises
  \<^verbatim>\<open>TypeError\<close> on \<^verbatim>\<open>None\<close>, a bool or a number.
\<close>

definition display_json :: "nat \<Rightarrow> json \<Rightarrow> error + pystr" where
  "display_json max_len val =
     (case val of
        JStr s \<Rightarrow> Inr (display_value max_len s)
      | JArr _ \<Rightarrow> Inl NotModelled
      | JObj _ \<Rightarrow> Inl NotModelled
      | _ \<Rightarrow> Inl TypeError)"

text \<open>
  The loop over \<^verbatim>\<open>list(orig_metadata.items())\<close> of the two writing scripts: every
  entry of the snapshot whose key starts with \<^verbatim>\<open>modelspec.\<close> is printed, cut at 200
  characters, and deleted from \<^verbatim>\<open>orig_metadata\<close>. \<open>display\<close> is the text shown for a
  value.
\<close>

fun print_and_delete ::
  "('v \<Rightarrow> error + pystr) \<Rightarrow> (pystr \<times> 'v) list \<Rightarrow> pystr list \<times> (pystr \<times> 'v) list
   \<Rightarrow> error + (pystr list \<times> (pystr \<times> 'v) list)" where
  "print_and_delete display [] st = Inr st"
| "print_and_delete display ((key, val) # items) (out, orig_metadata) =
     (if startswith key (ustr ''modelspec.'') then
        (case display val of
           Inl e \<Rightarrow> Inl e
         | Inr shown \<Rightarrow>
             print_and_delete display items
               (out @ [entry_line key shown], AList.delete key orig_metadata))
      else print_and_delete display items (out, orig_metadata))"

text \<open>\<^verbatim>\<open>orig_metadata.update(metadata)\<close>, the values of \<^verbatim>\<open>metadata\<close> being strings.\<close>

definition apply_metadata ::
  "(pystr \<times> json) list \<Rightarrow> (pystr \<times> pystr) list \<Rightarrow> (pystr \<times> json) list" where
  "apply_metadata orig_metadata metadata =
     dict_update orig_metadata (map (\<lambda>(k, v). (k, JStr v)) metadata)"

subsection \<open>Reading and writing a file by hand\<close>

text \<open>
  Lines 52-56 of \<^verbatim>\<open>example_no_reqs.py\<close>: \<^verbatim>\<open>read(8)\<close> and \<^verbatim>\<open>read(n)\<close> return what is
  left of the file when it is shorter, \<^verbatim>\<open>read()\<close> the rest.
\<close>

definition read_container :: "byte list \<Rightarrow> error + (json \<times> byte list)" where
  "read_container file_data =
     (case unpack_Q (take 8 file_data) of
        Inl e \<Rightarrow> Inl e
      | Inr head_len \<Rightarrow>
          (case loads (take head_len (drop 8 file_data)) of
             Inl e \<Rightarrow> Inl e
           | Inr header \<Rightarrow> Inr (header, drop head_len (drop 8 file_data))))"

text \<open>
  Lines 88-94: the header is serialised, the number of its characters is written as the
  length prefix, then its UTF-8 encoding and the content.
\<close>

definition write_container :: "json \<Rightarrow> byte list \<Rightarrow> error + byte list" where
  "write_container header content =
     (let header_text = dumps header
      in case pack_Q (length header_text) of
           Inl e \<Rightarrow> Inl e
         | Inr prefix \<Rightarrow>
             (case utf8_encode header_text of
                Inl e \<Rightarrow> Inl e
              | Inr header_bytes \<Rightarrow> Inr (prefix @ header_bytes @ content)))"


subsection \<open>\<^verbatim>\<open>example_no_reqs.py\<close>\<close>

text \<open>
  The text an f-string shows for a value \<^verbatim>\<open>json.loads\<close> returned (\<^verbatim>\<open>str(v)\<close>).
\<close>

definition py_format :: "json \<Rightarrow> error + pystr" where
  "py_format v =
     (case v of
        JStr s \<Rightarrow> Inr s
      | JNull \<Rightarrow> Inr (ustr ''None'')
      | JBool b \<Rightarrow> Inr (if b then ustr ''True'' else ustr ''False'')
      | JInt i \<Rightarrow> Inr (show_int i)
      | JArr _ \<Rightarrow> Inl NotModelled
      | JObj _ \<Rightarrow> Inl NotModelled)"

text \<open>
  Lines 69-74: the stored hash, when there is one, is compared with the hash just put
  into \<^verbatim>\<open>metadata\<close>, and the outcome is printed.
\<close>

definition check_hash :: "(pystr \<times> json) list \<Rightarrow> (pystr \<times> pystr) list \<Rightarrow> error + pystr list" where
  "check_hash orig_metadata metadata =
     (if dict_contains orig_metadata (ustr ''modelspec.hash_sha256'') then
        (case map_of orig_metadata (ustr ''modelspec.hash_sha256'') of
           None \<Rightarrow> Inl KeyError
         | Some hash \<Rightarrow>
             (case map_of metadata (ustr ''modelspec.hash_sha256'') of
                None \<Rightarrow> Inl KeyError
              | Some actual_hash \<Rightarrow>
                  if hash = JStr actual_hash then
                    Inr [ustr ''Comparing original hash to computed hash: '' @ ustr ''MATCH'']
                  else
                    (case py_format hash of
                       Inl e \<Rightarrow> Inl e
                     | Inr shown \<Rightarrow>
                         Inr [ustr ''Comparing original hash to computed hash: ''
                              @ ustr ''FAIL, DID NOT MATCH '' @ shown @ ustr '' != ''
                              @ actual_hash])))
      else Inr [])"

text \<open>
  Lines 62-81, on a header that is a dict: what is printed, and \<^verbatim>\<open>orig_metadata\<close> after
  the loop. A \<^verbatim>\<open>__metadata__\<close> that is not a dict fails at the \<^verbatim>\<open>in\<close> test of
  line 69, at the subscript of line 70 or at \<^verbatim>\<open>.items()\<close>.
\<close>

definition read_metadata ::
  "(pystr \<times> json) list \<Rightarrow> (pystr \<times> pystr) list
   \<Rightarrow> error + (pystr list \<times> (pystr \<times> json) list)" where
  "read_metadata header metadata =
     (if \<not> dict_contains header (ustr ''__metadata__'') then
        Inr ([ustr ''File does not have metadata''], [])
      else
        (case map_of header (ustr ''__metadata__'') of
           None \<Rightarrow> Inl KeyError
         | Some (JObj orig_metadata) \<Rightarrow>
             (case check_hash orig_metadata metadata of
                Inl e \<Rightarrow> Inl e
              | Inr out \<Rightarrow>
                  print_and_delete (display_json 200) orig_metadata
                    (out @ [ustr ''File has metadata! Content:''], orig_metadata))
         | Some (JStr s) \<Rightarrow>
             if str_contains s (ustr ''modelspec.hash_sha256'') then Inl TypeError
             else Inl AttributeError
         | Some (JArr xs) \<Rightarrow>
             if JStr (ustr ''modelspec.hash_sha256'') \<in> set xs then Inl TypeError
             else Inl AttributeError
         | Some _ \<Rightarrow> Inl TypeError))"

text \<open>
  Lines 57-59: the hash of the content is stored in \<^verbatim>\<open>metadata\<close>, and lines 84-85: the
  new \<^verbatim>\<open>metadata\<close> is applied and put back into the header.
\<close>

definition set_hash ::
  "(byte list \<Rightarrow> byte list) \<Rightarrow> byte list \<Rightarrow> (pystr \<times> pystr) list \<Rightarrow> (pystr \<times> pystr) list" where
  "set_hash sha256 content metadata =
     AList.update (ustr ''modelspec.hash_sha256'') (ustr ''0x'' @ hexdigest (sha256 content)) metadata"

definition new_header ::
  "(pystr \<times> json) list \<Rightarrow> (pystr \<times> json) list \<Rightarrow> (pystr \<times> pystr) list \<Rightarrow> json" where
  "new_header fields orig_metadata metadata =
     JObj (AList.update (ustr ''__metadata__'') (JObj (apply_metadata orig_metadata metadata)) fields)"

text \<open>
  \<^verbatim>\<open>process()\<close>. Its inputs are the digest function, \<^verbatim>\<open>image_path\<close>, the PNG bytes of
  the image at that path, the global \<^verbatim>\<open>metadata\<close> and the contents of the input file; its
  result is what is printed and the contents of the output file. A header that is not a
  dict ends in a \<^verbatim>\<open>TypeError\<close> at line 62, 66 or 85.
\<close>

definition process_no_reqs ::
  "(byte list \<Rightarrow> byte list) \<Rightarrow> pystr \<Rightarrow> byte list \<Rightarrow> (pystr \<times> pystr) list \<Rightarrow> byte list
   \<Rightarrow> error + (pystr list \<times> byte list)" where
  "process_no_reqs sha256 image_path png metadata file_in =
     (let (out1, metadata1) = load_image image_path png metadata
      in case read_container file_in of
           Inl e \<Rightarrow> Inl e
         | Inr (header, content) \<Rightarrow>
             (let metadata2 = set_hash sha256 content metadata1
              in case header of
                   JObj fields \<Rightarrow>
                     (case read_metadata fields metadata2 of
                        Inl e \<Rightarrow> Inl e
                      | Inr (out2, orig_metadata) \<Rightarrow>
                          (case write_container (new_header fields orig_metadata metadata2)
                                  content of
                             Inl e \<Rightarrow> Inl e
                           | Inr file_out \<Rightarrow>
                               Inr (out1 @ [ustr ''Loading model...''] @ out2
                                    @ [ustr ''Loaded! Saving...''], file_out)))
                 | _ \<Rightarrow> Inl TypeError))"

subsection \<open>\<^verbatim>\<open>example_read_only.py\<close>\<close>

text \<open>
  Lines 34-35: the limit depends on the key and on the value. \<^verbatim>\<open>val.startswith\<close> raises
  \<^verbatim>\<open>AttributeError\<close> on a value that is not a string; for the thumbnail key it is not
  evaluated.
\<close>

definition max_len_of :: "pystr \<Rightarrow> pystr \<Rightarrow> nat" where
  "max_len_of key val =
     (if key = ustr ''modelspec.thumbnail'' \<or> startswith val (ustr ''data:image/'')
      then 200 else 800)"

definition display_read_only :: "pystr \<Rightarrow> json \<Rightarrow> error + pystr" where
  "display_read_only key val =
     (case val of
        JStr s \<Rightarrow> Inr (display_value (max_len_of key s) s)
      | _ \<Rightarrow>
          if key = ustr ''modelspec.thumbnail'' then display_json 200 val
          else Inl AttributeError)"

fun print_reserved :: "(pystr \<times> json) list \<Rightarrow> pystr list \<Rightarrow> error + pystr list" where
  "print_reserved [] out = Inr out"
| "print_reserved ((key, val) # items) out =
     (if startswith key (ustr ''modelspec.'') then
        (case display_read_only key val of
           Inl e \<Rightarrow> Inl e
         | Inr shown \<Rightarrow> print_reserved items (out @ [entry_line key shown]))
      else print_reserved items out)"

text \<open>
  \<^verbatim>\<open>process()\<close>: the contents of the input file give what is printed. Only the prefix and
  the header are read. On a header that is a string or a list, \<^verbatim>\<open>in\<close> is the substring
  or the membership test.
\<close>

definition process_read_only :: "byte list \<Rightarrow> error + pystr list" where
  "process_read_only file_in =
     (case unpack_Q (take 8 file_in) of
        Inl e \<Rightarrow> Inl e
      | Inr head_len \<Rightarrow>
          (case loads (take head_len (drop 8 file_in)) of
             Inl e \<Rightarrow> Inl e
           | Inr header \<Rightarrow>
               (case header of
                  JObj fields \<Rightarrow>
                    if \<not> dict_contains fields (ustr ''__metadata__'') then
                      Inr [ustr ''Loading model...'', ustr ''File does not have metadata'']
                    else
                      (case map_of fields (ustr ''__metadata__'') of
                         Some (JObj orig_metadata) \<Rightarrow>
                           print_reserved orig_metadata
                             [ustr ''Loading model...'', ustr ''File has metadata! Content:'']
                       | Some _ \<Rightarrow> Inl AttributeError
                       | None \<Rightarrow> Inl KeyError)
                | JStr s \<Rightarrow>
                    if \<not> str_contains s (ustr ''__metadata__'') then
                      Inr [ustr ''Loading model...'', ustr ''File does not have metadata'']
                    else Inl TypeError
                | JArr xs \<Rightarrow>
                    if JStr (ustr ''__metadata__'') \<notin> set xs then
                      Inr [ustr ''Loading model...'', ustr ''File does not have metadata'']
                    else Inl TypeError
                | _ \<Rightarrow> Inl TypeError)))"

subsection \<open>\<^verbatim>\<open>example_hf_safetensors.py\<close>\<close>


section \<open>Example inputs\<close>

text \<open>
  A container with one tensor of four bytes, a foreign metadata key and two reserved
  ones, a stand-in for the digest function, and a \<^verbatim>\<open>metadata\<close> dict.
\<close>

definition example_header :: pystr where
  \<open>example_header = ustr ''{"w": {"dtype": "F32", "shape": [1], "data_offsets": [0, 4]}, "__metadata__": {"format": "pt", "modelspec.title": "Old", "modelspec.hash_sha256": "0xdead"}}''\<close>

definition example_file :: "byte list" where
  "example_file = le_bytes 156 @ map of_nat example_header @ [0x41, 0x42, 0x43, 0x44]"

definition example_fields :: "(pystr \<times> json) list" where
  "example_fields =
     [(ustr ''w'', JObj [(ustr ''dtype'', JStr (ustr ''F32'')), (ustr ''shape'', JArr [JInt 1]),
                         (ustr ''data_offsets'', JArr [JInt 0, JInt 4])]),
      (ustr ''__metadata__'', JObj [(ustr ''format'', JStr (ustr ''pt'')),
                                    (ustr ''modelspec.title'', JStr (ustr ''Old'')),
                                    (ustr ''modelspec.hash_sha256'', JStr (ustr ''0xdead''))])]"

definition example_digest :: "byte list \<Rightarrow> byte list" where
  "example_digest b = take 2 (b @ [0, 0])"

definition example_metadata :: "(pystr \<times> pystr) list" where
  "example_metadata =
     [(ustr ''modelspec.sai_model_spec'', ustr ''1.0.0''), (ustr ''modelspec.title'', ustr ''New'')]"

definition example_new_header :: json where
  "example_new_header =
     JObj [(ustr ''w'', JObj [(ustr ''dtype'', JStr (ustr ''F32'')), (ustr ''shape'', JArr [JInt 1]),
                              (ustr ''data_offsets'', JArr [JInt 0, JInt 4])]),
           (ustr ''__metadata__'',
            JObj [(ustr ''format'', JStr (ustr ''pt'')),
                  (ustr ''modelspec.sai_model_spec'', JStr (ustr ''1.0.0'')),
                  (ustr ''modelspec.title'', JStr (ustr ''New'')),
                  (ustr ''modelspec.hash_sha256'', JStr (ustr ''0x4142''))])]"

definition example_out :: "pystr list" where
  "example_out =
     [ustr ''Loading model...'',
      ustr ''Comparing original hash to computed hash: FAIL, DID NOT MATCH 0xdead != 0x4142'',
      ustr ''File has metadata! Content:'',
      entry_line (ustr ''modelspec.title'') (ustr ''Old''),
      entry_line (ustr ''modelspec.hash_sha256'') (ustr ''0xdead''),
      ustr ''Loaded! Saving...'']"

definition example_file_out :: "byte list" where
  "example_file_out =
     le_bytes (word_of_nat (length (dumps example_new_header)))
     @ map of_nat (dumps example_new_header) @ [0x41, 0x42, 0x43, 0x44]"




text \<open>A header with characters outside ASCII: \<^verbatim>\<open>M\<close>, \<open>U+00E9\<close>, \<open>U+20AC\<close>, \<open>U+1F600\<close>.\<close>

definition example_unicode_header :: json where
  "example_unicode_header =
     JObj [(ustr ''__metadata__'',
            JObj [(ustr ''modelspec.title'', JStr [0x4D, 0xE9, 0x20AC, 0x1F600])])]"







section \<open>Properties of the library functions and of the shared steps\<close>

subsection \<open>Dictionaries and the loops over the metadata\<close>

lemma startswith_prefix: "startswith s p \<longleftrightarrow> (\<exists>r. s = p @ r)"
  unfolding startswith_def
  by (metis append_eq_conv_conj append_take_drop_id)

lemma map_of_dict_update:
  "distinct (map fst e) \<Longrightarrow> map_of (dict_update d e) = map_of d ++ map_of e"
proof (induction e arbitrary: d)
  case Nil
  then show ?case by (simp add: dict_update_def)
next
  case (Cons a e)
  obtain k v where a: "a = (k, v)" by (cases a)
  from Cons.prems a have k: "k \<notin> fst ` set e" and d: "distinct (map fst e)" by auto
  have "dict_update d (a # e) = dict_update (AList.update k v d) e"
    by (simp add: dict_update_def a)
  then have "map_of (dict_update d (a # e)) = map_of (AList.update k v d) ++ map_of e"
    using Cons.IH [OF d] by (simp only:)
  also have "\<dots> = (map_of d)(k \<mapsto> v) ++ map_of e"
    by (simp only: AList.update_conv')
  also have "\<dots> = map_of d ++ map_of (a # e)"
  proof -
    from k have "map_of e k = None" by (simp add: map_of_eq_None_iff)
    then show ?thesis
      by (auto simp: a map_add_def fun_eq_iff split: option.splits)
  qed
  finally show ?case .
qed

lemma distinct_dict_update:
  "distinct (map fst d) \<Longrightarrow> distinct (map fst (dict_update d e))"
  by (induction e arbitrary: d) (auto simp: dict_update_def AList.distinct_update)





lemma print_reserved_ok:
  "\<forall>(k, v) \<in> set items. startswith k (ustr ''modelspec.'') \<longrightarrow> \<not> isl (display_read_only k v) \<Longrightarrow>
   print_reserved items out =
     Inr (out @ map (\<lambda>(k, v). entry_line k (projr (display_read_only k v)))
                  (filter (\<lambda>(k, v). startswith k (ustr ''modelspec.'')) items))"
proof (induction items arbitrary: out)
  case Nil
  then show ?case by simp
next
  case (Cons a items)
  obtain key val where a: "a = (key, val)" by (cases a)
  from Cons.prems have rest:
    "\<forall>(k, v) \<in> set items. startswith k (ustr ''modelspec.'') \<longrightarrow> \<not> isl (display_read_only k v)"
    by simp
  show ?case
  proof (cases "startswith key (ustr ''modelspec.'')")
    case True
    with Cons.prems a obtain shown where sh: "display_read_only key val = Inr shown"
      by (cases "display_read_only key val") auto
    then show ?thesis
      using True by (simp add: a Cons.IH [OF rest])
  next
    case False
    then show ?thesis by (simp add: a Cons.IH [OF rest])
  qed
qed

subsection \<open>The serialised header is ASCII\<close>

lemma hex_digit_ascii: "d < 16 \<Longrightarrow> hex_digit d < 128"
  by (simp add: hex_digit_def)

lemma hex4_ascii: "c \<in> set (hex4 n) \<Longrightarrow> c < 128"
  by (auto simp: hex4_def hex_digit_def)

lemma escape_char_ascii: "x \<in> set (escape_char c) \<Longrightarrow> x < 128"
  by (auto simp: escape_char_def Let_def split: if_splits dest: hex4_ascii)

lemma encode_basestring_ascii_ascii: "x \<in> set (encode_basestring_ascii s) \<Longrightarrow> x < 128"
  by (auto simp: encode_basestring_ascii_def dest: escape_char_ascii)

lemma digits_ascii: "x \<in> set (digits n) \<Longrightarrow> x < 128"
proof (induction n rule: digits.induct)
  case (1 n)
  show ?case
  proof (cases "n < 10")
    case True
    with "1.prems" show ?thesis by (simp add: digits.simps [of n])
  next
    case False
    with "1.prems" have "x \<in> set (digits (n div 10)) \<or> x = 0x30 + n mod 10"
      by (auto simp: digits.simps [of n])
    then show ?thesis
    proof
      assume "x \<in> set (digits (n div 10))"
      with "1.IH" False show ?thesis by simp
    next
      assume "x = 0x30 + n mod 10"
      moreover have "n mod 10 < 10" by simp
      ultimately show ?thesis by linarith
    qed
  qed
qed

lemma show_int_ascii: "x \<in> set (show_int i) \<Longrightarrow> x < 128"
  by (auto simp: show_int_def split: if_splits dest: digits_ascii)

lemma dumps_ascii:
  "\<forall>x \<in> set (dumps j). x < 128"
  "\<forall>x \<in> set (dumps_list js). x < 128"
  "\<forall>x \<in> set (dumps_dict kvs). x < 128"
proof (induction j and js and kvs rule: dumps_dumps_list_dumps_dict.induct)
  case (3 i)
  then show ?case by (auto dest: show_int_ascii)
next
  case (4 s)
  then show ?case by (auto dest: encode_basestring_ascii_ascii)
next
  case (10 k v kvs)
  then show ?case by (auto dest: encode_basestring_ascii_ascii)
qed (auto simp: ustr_def)

lemma utf8_encode_ascii:
  "\<forall>x \<in> set s. x < 128 \<Longrightarrow> utf8_encode s = Inr (map of_nat s)"
  by (induction s) (auto simp: utf8_encode_char_def)

lemma utf8_decode_ascii:
  "\<forall>x \<in> set s. x < 128 \<Longrightarrow> utf8_decode (map of_nat s) = Inr s"
proof (induction s)
  case Nil
  then show ?case by simp
next
  case (Cons c s)
  then have c: "c < 128" by simp
  then have "unat (of_nat c :: byte) = c" by (simp add: unat_of_nat)
  with c Cons show ?case by simp
qed

subsection \<open>The length prefix\<close>

lemma byte_step:
  fixes v :: "64 word"
  shows "ucast (ucast v :: byte) OR push_bit 8 (take_bit (8 * k) (drop_bit 8 v)) = take_bit (8 * Suc k) v"
  by (rule bit_word_eqI) (auto simp: bit_simps)

lemma le_word_bytes_from:
  fixes w :: "64 word"
  shows "foldr (\<lambda>b acc. ucast b OR push_bit 8 acc)
           (map (\<lambda>i. ucast (drop_bit (8 * i) w) :: byte) [j..<j + k]) 0
         = take_bit (8 * k) (drop_bit (8 * j) w)"
proof (induction k arbitrary: j)
  case 0
  show ?case by simp
next
  case (Suc k)
  have "[j..<j + Suc k] = j # [Suc j..<Suc j + k]"
    by (simp add: upt_rec)
  moreover have "drop_bit (8 * Suc j) w = drop_bit 8 (drop_bit (8 * j) w)"
    by (simp add: drop_bit_drop_bit)
  ultimately show ?case
    using Suc.IH [of "Suc j"] byte_step [of "drop_bit (8 * j) w" k]
    by simp
qed

lemma le_word_le_bytes: "le_word (le_bytes w) = w"
  using le_word_bytes_from [of w 0 8]
  by (simp add: le_word_def le_bytes_def take_bit_word_eq_self)

lemma length_le_bytes: "length (le_bytes w) = 8"
  by (simp add: le_bytes_def)

lemma unpack_Q_le_bytes: "unpack_Q (le_bytes w) = Inr (unat w)"
  by (simp add: unpack_Q_def le_word_le_bytes length_le_bytes)

lemma pack_Q_ok: "n < 2 ^ 64 \<Longrightarrow> pack_Q n = Inr (le_bytes (word_of_nat n))"
  by (simp add: pack_Q_def)

lemma unat_word_of_nat_64: "n < 2 ^ 64 \<Longrightarrow> unat (word_of_nat n :: 64 word) = n"
  by (simp add: unat_of_nat)


subsection \<open>Writing and reading back the framing\<close>

lemma write_container_ok:
  "length (dumps header) < 2 ^ 64 \<Longrightarrow>
   write_container header content
     = Inr (le_bytes (word_of_nat (length (dumps header))) @ map of_nat (dumps header) @ content)"
  by (simp add: write_container_def Let_def pack_Q_ok utf8_encode_ascii dumps_ascii)

lemma write_container_InrD:
  assumes "write_container header content = Inr file_out"
  shows "length (dumps header) < 2 ^ 64"
    and "file_out = le_bytes (word_of_nat (length (dumps header))) @ map of_nat (dumps header) @ content"
proof -
  from assms show len: "length (dumps header) < 2 ^ 64"
    by (auto simp: write_container_def Let_def pack_Q_def split: if_splits)
  from assms write_container_ok [OF len, of content]
  show "file_out = le_bytes (word_of_nat (length (dumps header))) @ map of_nat (dumps header) @ content"
    by simp
qed

lemma write_container_Inl:
  assumes "write_container header content = Inl e"
  shows "e = StructError \<and> 2 ^ 64 \<le> length (dumps header)"
proof (cases "length (dumps header) < 2 ^ 64")
  case True
  from write_container_ok [OF True, of content] assms show ?thesis by simp
next
  case False
  with assms show ?thesis by (simp add: write_container_def Let_def pack_Q_def)
qed

subsection \<open>\<^verbatim>\<open>process()\<close> of \<^verbatim>\<open>example_no_reqs.py\<close>, step by step\<close>

lemma process_no_reqs_run:
  assumes "read_container file_in = Inr (JObj fields, content)"
    and "read_metadata fields (set_hash digest content (snd (load_image image_path png metadata)))
           = Inr (out2, orig_metadata)"
    and "write_container
           (new_header fields orig_metadata
              (set_hash digest content (snd (load_image image_path png metadata)))) content
         = Inr file_out"
  shows "process_no_reqs digest image_path png metadata file_in
           = Inr (fst (load_image image_path png metadata) @ [ustr ''Loading model...''] @ out2
                  @ [ustr ''Loaded! Saving...''], file_out)"
  using assms
  by (cases "load_image image_path png metadata") (simp add: process_no_reqs_def Let_def)

lemma process_no_reqs_InrD:
  assumes "process_no_reqs digest image_path png metadata file_in = Inr (out, file_out)"
  shows "\<exists>fields content out2 orig_metadata.
           read_container file_in = Inr (JObj fields, content)
         \<and> read_metadata fields (set_hash digest content (snd (load_image image_path png metadata)))
             = Inr (out2, orig_metadata)
         \<and> write_container
              (new_header fields orig_metadata
                 (set_hash digest content (snd (load_image image_path png metadata)))) content
             = Inr file_out
         \<and> out = fst (load_image image_path png metadata) @ [ustr ''Loading model...''] @ out2
                  @ [ustr ''Loaded! Saving...'']"
  using assms
  by (auto simp: process_no_reqs_def Let_def split: prod.splits sum.splits json.splits)



lemma map_of_apply_metadata:
  assumes "distinct (map fst metadata)"
  shows "map_of (apply_metadata orig_metadata metadata) k
           = (case map_of metadata k of Some v \<Rightarrow> Some (JStr v) | None \<Rightarrow> map_of orig_metadata k)"
proof -
  from assms have "distinct (map fst (map (\<lambda>(k, v). (k, JStr v)) metadata))"
    by (simp add: comp_def case_prod_beta)
  then show ?thesis
    by (simp add: apply_metadata_def map_of_dict_update map_add_def map_of_map split: option.splits)
qed

lemma startswith_keys [simp]:
  "startswith (ustr ''modelspec.thumbnail'') (ustr ''modelspec.'')"
  "startswith (ustr ''modelspec.hash_sha256'') (ustr ''modelspec.'')"
  by (simp_all add: startswith_def ustr_def)


lemma load_image_distinct:
  "distinct (map fst metadata) \<Longrightarrow> distinct (map fst (snd (load_image image_path png metadata)))"
  by (simp add: load_image_def AList.distinct_update)



subsection \<open>Reading the metadata of a well-formed header\<close>




lemma map_of_set_hash:
  "map_of (set_hash digest content metadata) (ustr ''modelspec.hash_sha256'')
     = Some (ustr ''0x'' @ hexdigest (digest content))"
  by (simp add: set_hash_def AList.update_conv')



lemma check_hash_match:
  assumes "map_of om (ustr ''modelspec.hash_sha256'') = Some (JStr computed)"
    and "map_of metadata (ustr ''modelspec.hash_sha256'') = Some computed"
  shows "check_hash om metadata
           = Inr [ustr ''Comparing original hash to computed hash: '' @ ustr ''MATCH'']"
  using assms by (simp add: check_hash_def dict_contains_def)

lemma written_file_framing:
  assumes "write_container header content = Inr file_out"
  shows "unpack_Q (take 8 file_out) = Inr (length (dumps header))"
    and "take (length (dumps header)) (drop 8 file_out) = map of_nat (dumps header)"
    and "drop (length (dumps header)) (drop 8 file_out) = content"
proof -
  note d = write_container_InrD [OF assms]
  from d(2) have t8: "take 8 file_out = le_bytes (word_of_nat (length (dumps header)))"
    by (simp add: length_le_bytes)
  from d(2) have d8: "drop 8 file_out = map of_nat (dumps header) @ content"
    by (simp add: length_le_bytes)
  show "unpack_Q (take 8 file_out) = Inr (length (dumps header))"
    by (simp add: t8 unpack_Q_le_bytes unat_word_of_nat_64 [OF d(1)])
  show "take (length (dumps header)) (drop 8 file_out) = map of_nat (dumps header)"
    by (simp add: d8)
  show "drop (length (dumps header)) (drop 8 file_out) = content"
    by (simp add: d8)
qed

lemma hexdigest_lowercase: "set (hexdigest d) \<subseteq> set (ustr ''0123456789abcdef'')"
proof -
  have "hex_digit n \<in> set (ustr ''0123456789abcdef'')" if "n < 16" for n
  proof -
    from that have "n \<in> {0, 1, 2, 3, 4, 5, 6, 7, 8, 9, 10, 11, 12, 13, 14, 15}"
      by (simp only: insert_iff empty_iff) arith
    then show ?thesis by (auto simp: hex_digit_def ustr_def)
  qed
  moreover have "unat b div 16 < 16" for b :: byte
  proof -
    have "unat b < 2 ^ LENGTH(8)" by (rule unsigned_less)
    then show ?thesis by simp
  qed
  ultimately show ?thesis
    by (auto simp: hexdigest_def)
qed

subsection \<open>The scripts on the example inputs\<close>

lemma read_container_example:
  "read_container example_file = Inr (JObj example_fields, [0x41, 0x42, 0x43, 0x44])"
  by code_simp


lemma example_metadata_distinct: "distinct (map fst example_metadata)"
  by (simp add: example_metadata_def ustr_def)

lemmas eval_defs =
  ustr_def startswith_def dict_contains_def load_image_def check_hash_def py_format_def
  display_json_def display_value_def read_metadata_def apply_metadata_def dict_update_def
  AList.delete_eq hexdigest_def hex_digit_def encode_basestring_ascii_def escape_char_def hex4_def
  show_int_def digits.simps

lemma example_new_header_length: "length (dumps example_new_header) < 2 ^ 64"
  by (simp add: example_new_header_def eval_defs)

lemma process_no_reqs_example:
  "process_no_reqs example_digest [] [] example_metadata example_file
     = Inr (example_out, example_file_out)"
proof -
  have rm: "read_metadata example_fields
              (AList.update (ustr ''modelspec.hash_sha256'')
                 (ustr ''0x'' @ hexdigest (example_digest [0x41, 0x42, 0x43, 0x44]))
                 (snd (load_image [] [] example_metadata)))
            = Inr ([ustr ''Comparing original hash to computed hash: FAIL, DID NOT MATCH 0xdead != 0x4142'',
                    ustr ''File has metadata! Content:'',
                    entry_line (ustr ''modelspec.title'') (ustr ''Old''),
                    entry_line (ustr ''modelspec.hash_sha256'') (ustr ''0xdead'')],
                   [(ustr ''format'', JStr (ustr ''pt''))])"
    by (simp add: example_fields_def example_metadata_def example_digest_def eval_defs)
  have hd: "JObj (AList.update (ustr ''__metadata__'')
              (JObj (apply_metadata [(ustr ''format'', JStr (ustr ''pt''))]
                 (AList.update (ustr ''modelspec.hash_sha256'')
                    (ustr ''0x'' @ hexdigest (example_digest [0x41, 0x42, 0x43, 0x44]))
                    (snd (load_image [] [] example_metadata))))) example_fields)
            = example_new_header"
    by (simp add: example_fields_def example_metadata_def example_digest_def
        example_new_header_def eval_defs)
  have wr: "write_container example_new_header [0x41, 0x42, 0x43, 0x44] = Inr example_file_out"
    by (simp add: write_container_ok [OF example_new_header_length] example_file_out_def)
  from wr have wr': "write_container
           (JObj (AList.update (ustr ''__metadata__'')
              (JObj (apply_metadata [(ustr ''format'', JStr (ustr ''pt''))]
                 (AList.update (ustr ''modelspec.hash_sha256'')
                    (ustr ''0x'' @ hexdigest (example_digest [0x41, 0x42, 0x43, 0x44]))
                    (snd (load_image [] [] example_metadata))))) example_fields))
           [0x41, 0x42, 0x43, 0x44] = Inr example_file_out"
    by (simp only: hd)
  from process_no_reqs_run [unfolded set_hash_def new_header_def,
      where digest = example_digest and image_path = "[]" and png = "[]"
      and metadata = example_metadata, OF read_container_example rm wr']
  show ?thesis by (simp add: example_out_def load_image_def)
qed












section \<open>The claims\<close>

text \<open>
  C7: the display expression returns the value unchanged when its length is at most
  \<open>max_len\<close>, and otherwise its first \<open>max_len\<close> characters followed by the marker
  \<^verbatim>\<open>...\<close>; a value of 500 characters shown with limit 200 is its first 200 characters
  and the marker, a value of 100 characters is unchanged.
\<close>

theorem display_value_truncates:
  "display_value max_len v = (if length v \<le> max_len then v else take max_len v @ ustr ''...'')
   \<and> (length v = 500 \<longrightarrow>
        display_value 200 v = take 200 v @ ustr ''...''
        \<and> length (display_value 200 v) = 200 + length (ustr ''...''))
   \<and> (length v = 100 \<longrightarrow> display_value 200 v = v)"
  by (simp add: display_value_def)

theorem display_value_truncates_witness:
  "length (replicate 500 (0x61::nat)) = 500
   \<and> display_value 200 (replicate 500 0x61) = replicate 200 0x61 @ ustr ''...''
   \<and> length (replicate 100 (0x61::nat)) = 100
   \<and> display_value 200 (replicate 100 0x61) = replicate 100 0x61"
  using display_value_truncates [of 200 "replicate 500 0x61"]
    display_value_truncates [of 200 "replicate 100 0x61"]
  by simp

lemma splitext_example: "splitext_ext (ustr ''../images/example.jpg'') = ustr ''.jpg''"
  by code_simp

text \<open>
  C2: with the path the scripts set, \<^verbatim>\<open>../images/example.jpg\<close>, the thumbnail stored
  in the metadata starts with \<^verbatim>\<open>data:image/.jpg;base64,\<close>: the extension keeps its dot.
\<close>

theorem thumbnail_uri_keeps_dot:
  "thumbnail_uri (ustr ''../images/example.jpg'') png
     = ustr ''data:image/.jpg;base64,'' @ convert_to_b64 png
   \<and> thumbnail_uri (ustr ''../images/example.jpg'') png
     \<noteq> ustr ''data:image/jpg;base64,'' @ convert_to_b64 png
   \<and> map_of (snd (load_image (ustr ''../images/example.jpg'') png metadata))
        (ustr ''modelspec.thumbnail'')
     = Some (ustr ''data:image/.jpg;base64,'' @ convert_to_b64 png)"
  using splitext_example
  by (simp add: thumbnail_uri_def load_image_def AList.update_conv' ustr_def)






text \<open>
  C9: in every file \<^verbatim>\<open>example_no_reqs.py\<close> writes, the header's
  \<^verbatim>\<open>modelspec.hash_sha256\<close> is \<^verbatim>\<open>0x\<close> followed by the lowercase hexadecimal digest of
  the bytes that follow the header in that file, which are the content of the input.
\<close>

theorem stored_hash_is_digest_of_written_body:
  assumes ok: "process_no_reqs digest image_path png metadata file_in = Inr (out, file_out)"
    and dist: "distinct (map fst metadata)"
  shows "\<exists>fields content new_fields new_metadata.
           read_container file_in = Inr (JObj fields, content)
         \<and> write_container (JObj new_fields) content = Inr file_out
         \<and> unpack_Q (take 8 file_out) = Inr (length (dumps (JObj new_fields)))
         \<and> take (length (dumps (JObj new_fields))) (drop 8 file_out)
             = map of_nat (dumps (JObj new_fields))
         \<and> drop (length (dumps (JObj new_fields))) (drop 8 file_out) = content
         \<and> map_of new_fields (ustr ''__metadata__'') = Some (JObj new_metadata)
         \<and> map_of new_metadata (ustr ''modelspec.hash_sha256'')
             = Some (JStr (ustr ''0x'' @ hexdigest (digest content)))
         \<and> set (hexdigest (digest content)) \<subseteq> set (ustr ''0123456789abcdef'')"
proof -
  from process_no_reqs_InrD [OF ok] obtain fields content out2 om' where
    rc: "read_container file_in = Inr (JObj fields, content)"
    and wr: "write_container
               (new_header fields om'
                  (set_hash digest content (snd (load_image image_path png metadata)))) content
             = Inr file_out"
    by blast
  let ?m2 = "set_hash digest content (snd (load_image image_path png metadata))"
  let ?nm = "apply_metadata om' ?m2"
  let ?nf = "AList.update (ustr ''__metadata__'') (JObj ?nm) fields"
  have nh: "new_header fields om' ?m2 = JObj ?nf"
    by (simp add: new_header_def)
  have dist2: "distinct (map fst ?m2)"
    unfolding set_hash_def
    by (rule AList.distinct_update [OF load_image_distinct [OF dist]])
  have h: "map_of ?nm (ustr ''modelspec.hash_sha256'')
             = Some (JStr (ustr ''0x'' @ hexdigest (digest content)))"
    by (simp add: map_of_apply_metadata [OF dist2] map_of_set_hash)
  have m: "map_of ?nf (ustr ''__metadata__'') = Some (JObj ?nm)"
    by (simp add: AList.update_conv')
  from wr have wr': "write_container (JObj ?nf) content = Inr file_out"
    by (simp only: nh)
  from rc wr' written_file_framing [OF wr'] m h hexdigest_lowercase [of "digest content"]
  show ?thesis by blast
qed

theorem stored_hash_is_digest_of_written_body_witness:
  "distinct (map fst example_metadata)
   \<and> process_no_reqs example_digest [] [] example_metadata example_file
       = Inr (example_out, example_file_out)
   \<and> (\<exists>new_fields new_metadata.
         write_container (JObj new_fields) [0x41, 0x42, 0x43, 0x44] = Inr example_file_out
       \<and> drop (length (dumps (JObj new_fields))) (drop 8 example_file_out) = [0x41, 0x42, 0x43, 0x44]
       \<and> map_of new_fields (ustr ''__metadata__'') = Some (JObj new_metadata)
       \<and> map_of new_metadata (ustr ''modelspec.hash_sha256'') = Some (JStr (ustr ''0x4142'')))"
proof -
  from stored_hash_is_digest_of_written_body [OF process_no_reqs_example example_metadata_distinct]
  obtain fields content new_fields new_metadata where
    rc: "read_container example_file = Inr (JObj fields, content)"
    and wr: "write_container (JObj new_fields) content = Inr example_file_out"
    and body: "drop (length (dumps (JObj new_fields))) (drop 8 example_file_out) = content"
    and m: "map_of new_fields (ustr ''__metadata__'') = Some (JObj new_metadata)"
    and h: "map_of new_metadata (ustr ''modelspec.hash_sha256'')
             = Some (JStr (ustr ''0x'' @ hexdigest (example_digest content)))"
    by blast
  from rc read_container_example have c: "content = [0x41, 0x42, 0x43, 0x44]" by simp
  from h have h': "map_of new_metadata (ustr ''modelspec.hash_sha256'') = Some (JStr (ustr ''0x4142''))"
    by (simp add: c example_digest_def eval_defs)
  from wr body m h' example_metadata_distinct process_no_reqs_example
  show ?thesis unfolding c by blast
qed

text \<open>
  C10: the serialised header holds ASCII characters only, so its UTF-8 encoding has one
  byte for each character, and the number \<^verbatim>\<open>struct.pack\<close> writes, the count of its
  characters, is the count of the bytes that follow as the header.
\<close>

theorem length_prefix_is_byte_length:
  "(\<forall>c \<in> set (dumps header). c < 0x80)
   \<and> (\<exists>header_bytes.
         utf8_encode (dumps header) = Inr header_bytes
       \<and> length header_bytes = length (dumps header)
       \<and> (write_container header content = Inr file_out \<longrightarrow>
            unpack_Q (take 8 file_out) = Inr (length header_bytes)
          \<and> take (length header_bytes) (drop 8 file_out) = header_bytes
          \<and> drop (length header_bytes) (drop 8 file_out) = content))"
proof -
  have a: "\<forall>c \<in> set (dumps header). c < 0x80"
    using dumps_ascii(1) [of header] by simp
  have e: "utf8_encode (dumps header) = Inr (map of_nat (dumps header))"
    by (rule utf8_encode_ascii) (use a in simp)
  show ?thesis
    using a e written_file_framing [of header content file_out] by auto
qed

theorem length_prefix_is_byte_length_witness:
  "dumps example_unicode_header
     = [0x7B] @ encode_basestring_ascii (ustr ''__metadata__'') @ ustr '': '' @ [0x7B]
       @ encode_basestring_ascii (ustr ''modelspec.title'') @ ustr '': ''
       @ [0x22, 0x4D] @ [0x5C] @ ustr ''u00e9'' @ [0x5C] @ ustr ''u20ac''
       @ [0x5C] @ ustr ''ud83d'' @ [0x5C] @ ustr ''ude00'' @ [0x22] @ [0x7D, 0x7D]
   \<and> length (dumps example_unicode_header) = 66
   \<and> (\<exists>file_out.
         write_container example_unicode_header [0x41, 0x42, 0x43, 0x44] = Inr file_out
       \<and> unpack_Q (take 8 file_out) = Inr 66
       \<and> drop 66 (drop 8 file_out) = [0x41, 0x42, 0x43, 0x44])"
proof -
  have d: "dumps example_unicode_header
     = [0x7B] @ encode_basestring_ascii (ustr ''__metadata__'') @ ustr '': '' @ [0x7B]
       @ encode_basestring_ascii (ustr ''modelspec.title'') @ ustr '': ''
       @ [0x22, 0x4D] @ [0x5C] @ ustr ''u00e9'' @ [0x5C] @ ustr ''u20ac''
       @ [0x5C] @ ustr ''ud83d'' @ [0x5C] @ ustr ''ude00'' @ [0x22] @ [0x7D, 0x7D]"
    by (simp add: example_unicode_header_def eval_defs Let_def)
  have l: "length (dumps example_unicode_header) = 66"
    by (simp add: example_unicode_header_def eval_defs Let_def)
  then have "length (dumps example_unicode_header) < 2 ^ 64" by simp
  from write_container_ok [OF this, of "[0x41, 0x42, 0x43, 0x44]"]
  obtain file_out where
    wr: "write_container example_unicode_header [0x41, 0x42, 0x43, 0x44] = Inr file_out"
    by blast
  from length_prefix_is_byte_length [of example_unicode_header "[0x41, 0x42, 0x43, 0x44]" file_out] wr
  have "unpack_Q (take 8 file_out) = Inr (length (dumps example_unicode_header))"
    and "drop (length (dumps example_unicode_header)) (drop 8 file_out) = [0x41, 0x42, 0x43, 0x44]"
    by auto
  with d l wr show ?thesis by (simp only: l) blast
qed




end
